theory Spec2Isabelle
  imports Complex_Main "HOL-Library.AList"
begin

section \<open>The Dataset reconciler of \<^verbatim>\<open>internal/controller/dataset_controller.go\<close>\<close>

text \<open>
  The controller reads a Dataset, marks it UNREADY when no subset names both a train and
  a test file, and, when the Dataset asks for a plugin, renders the plugin's manifest and
  creates or updates the resulting document in the cluster.

  Everything the controller calls outside its own file is a collaborator: the cluster
  client (\<^verbatim>\<open>r.Get\<close>, \<^verbatim>\<open>r.Status().Update\<close>, \<^verbatim>\<open>r.Update\<close>, \<^verbatim>\<open>r.Create\<close>), the file system,
  \<^verbatim>\<open>encoding/json\<close>, the template and YAML libraries, \<^verbatim>\<open>ctrl.SetControllerReference\<close>
  and the two error classifiers. Their code is not part of the controller, so each is a
  field of the record \<open>reconciler\<close> below and the functions of the controller are
  translated over an arbitrary such record. Every function returns, beside its Go
  result, the cluster it leaves and the list of the calls it made to the client, the
  file system, the decoders, the renderer and \<^verbatim>\<open>SetControllerReference\<close>, in order, each
  with its arguments and its answer. Logging (\<^verbatim>\<open>r.Log\<close>) and the context argument are
  left out: no result depends on them.
\<close>

subsection \<open>Data\<close>

text \<open>The API types of the Dataset and the DataPlugin, with the fields the controller reads.\<close>

record split =
  File :: string

record splits =
  Train :: split
  Test :: split

record subset =
  Splits :: splits

record plugin =
  LoadPlugin :: bool
  Name :: string
  Parameters :: string

record dataset_info =
  Subsets :: "subset list"

record dataset_metadata =
  DatasetInfo :: dataset_info
  Plugin :: plugin

record dataset_spec =
  DatasetMetadata :: dataset_metadata

datatype dataset_state = StateUnset | DatasetReady | DatasetUnready

record dataset_status =
  State :: dataset_state

record dataset =
  Dataset_Namespace :: string
  Dataset_Name :: string
  Dataset_UID :: string
  Spec :: dataset_spec
  Status :: dataset_status

record data_plugin_spec =
  DatasetClass :: string
  Provider :: string

record data_plugin =
  DataPlugin_Spec :: data_plugin_spec

text \<open>
  The values \<^verbatim>\<open>encoding/json\<close> stores in a \<^verbatim>\<open>map[string]interface{}\<close>. A Go map
  variable is \<open>None\<close> while it is nil and \<open>Some m\<close> once it is allocated.
\<close>

datatype json_value =
    JNull
  | JBool bool
  | JNumber real
  | JString string
  | JArray "json_value list"
  | JObject "(string \<times> json_value) list"

type_synonym parameters = "string \<rightharpoonup> json_value"

text \<open>
  \<^verbatim>\<open>unstructured.Unstructured\<close>: the fields are named after the accessors the controller
  uses; \<open>Object\<close> is the rest of the document.
\<close>

record owner_reference =
  Ref_Kind :: string
  Ref_Name :: string
  Ref_UID :: string
  Controller :: bool

record unstructured =
  GroupVersionKind :: "string \<times> string \<times> string"
  GetName :: string
  GetNamespace :: string
  GetResourceVersion :: string
  GetOwnerReferences :: "owner_reference list"
  Object :: "(string \<times> json_value) list"

text \<open>
  A document is controlled by a Dataset when one of its owner references is a controller
  reference with the Dataset's name and UID.
\<close>

definition controlled_by :: "dataset \<Rightarrow> unstructured \<Rightarrow> bool" where
  "controlled_by ds obj =
     list_ex (\<lambda>ref. Ref_Name ref = Dataset_Name ds \<and> Ref_UID ref = Dataset_UID ds \<and> Controller ref)
       (GetOwnerReferences obj)"

text \<open>A Go \<^verbatim>\<open>error\<close> value, and a function that either returns or panics.\<close>

datatype error = GoError string

datatype 'a outcome = Returned 'a | Panicked string

subsection \<open>\<^verbatim>\<open>isSubsetInfoValid\<close>\<close>

fun isSubsetInfoValid :: "subset list \<Rightarrow> bool" where
  "isSubsetInfoValid [] = False"
| "isSubsetInfoValid (sub # subsets) =
     (if File (Train (Splits sub)) \<noteq> '''' \<and> File (Test (Splits sub)) \<noteq> '''' then True
      else isSubsetInfoValid subsets)"


subsection \<open>Collaborators\<close>

text \<open>
  The cluster is a value of an arbitrary type \<open>'s\<close>. A read answers from it; a write
  answers and returns the cluster it leaves. \<^verbatim>\<open>r.Get\<close> is one field per type of object
  read. A key is the pair (namespace, name) of \<^verbatim>\<open>types.NamespacedName\<close>. What the
  client copies from the server's answer into the object of a write is not modelled:
  after a write the controller reads only fields of the object that it read or set
  before.

  \<open>apierrors_IsNotFound\<close> is the test behind \<^verbatim>\<open>client.IgnoreNotFound\<close> of
  controller-runtime; \<open>errors_IsNotFound\<close> is \<^verbatim>\<open>errors.IsNotFound\<close> of the package the
  file imports under the name \<^verbatim>\<open>errors\<close>, \<^verbatim>\<open>github.com/qiniu/x/errors\<close>. They are two
  functions of two libraries, hence two fields. The first accepts the not-found error of
  the API server; the second accepts the \<^verbatim>\<open>NotFound\<close> values of its own package.

  \<open>json_Unmarshal\<close> answers for a target map that is nil before the call: an error, or
  the map variable as the decoder leaves it. \<open>viper_GetString\<close> is the lookup of the
  \<^verbatim>\<open>config\<close> instance of package \<^verbatim>\<open>config\<close> after its \<^verbatim>\<open>init\<close>.
\<close>

record 's reconciler =
  client_Get_Dataset :: "'s \<Rightarrow> string \<times> string \<Rightarrow> error + dataset"
  client_Status_Update :: "'s \<Rightarrow> dataset \<Rightarrow> error option \<times> 's"
  client_Get_DataPlugin :: "'s \<Rightarrow> string \<times> string \<Rightarrow> error + data_plugin"
  client_Get :: "'s \<Rightarrow> string \<times> string \<times> string \<Rightarrow> string \<times> string \<Rightarrow> error + unstructured"
  client_Update :: "'s \<Rightarrow> unstructured \<Rightarrow> error option \<times> 's"
  client_Create :: "'s \<Rightarrow> unstructured \<Rightarrow> error option \<times> 's"
  apierrors_IsNotFound :: "error \<Rightarrow> bool"
  errors_IsNotFound :: "error \<Rightarrow> bool"
  os_ReadFile :: "string \<Rightarrow> error + string"
  filepath_Join :: "string list \<Rightarrow> string"
  json_Unmarshal :: "string \<Rightarrow> error + parameters option"
  parser_ReplaceTemplate :: "string \<Rightarrow> parameters \<Rightarrow> error + string"
  yaml_Decode :: "string \<Rightarrow> error + unstructured"
  ctrl_SetControllerReference :: "dataset \<Rightarrow> unstructured \<Rightarrow> error + unstructured"
  viper_GetString :: "string \<Rightarrow> string"
  GetDatatunerxSystemNamespace :: string

datatype call =
    Get_Dataset "string \<times> string" "error + dataset"
  | Status_Update dataset "error option"
  | Get_DataPlugin "string \<times> string" "error + data_plugin"
  | Read_File string "error + string"
  | Json_Unmarshal string "error + parameters option"
  | Replace_Template string parameters "error + string"
  | Yaml_Decode string "error + unstructured"
  | Set_ControllerReference dataset unstructured "error + unstructured"
  | Get_Object "string \<times> string \<times> string" "string \<times> string" "error + unstructured"
  | Update_Object unstructured "error option"
  | Create_Object unstructured "error option"

text \<open>The calls that belong to the manifest pipeline, and those that write a document.\<close>

fun is_write :: "call \<Rightarrow> bool" where
  "is_write (Update_Object obj e) = True"
| "is_write (Create_Object obj e) = True"
| "is_write c = False"

fun is_manifest_call :: "call \<Rightarrow> bool" where
  "is_manifest_call (Get_Dataset key a) = False"
| "is_manifest_call (Status_Update ds e) = False"
| "is_manifest_call c = True"

fun written :: "call \<Rightarrow> unstructured option" where
  "written (Update_Object obj e) = Some obj"
| "written (Create_Object obj e) = Some obj"
| "written c = None"

subsection \<open>Package \<^verbatim>\<open>config\<close>\<close>

definition GetCompleteNotifyURL :: "'s reconciler \<Rightarrow> string" where
  "GetCompleteNotifyURL r = viper_GetString r ''complete_notify_url''"

subsection \<open>\<^verbatim>\<open>client.IgnoreNotFound\<close>\<close>

definition IgnoreNotFound :: "'s reconciler \<Rightarrow> error \<Rightarrow> error option" where
  "IgnoreNotFound r err = (if apierrors_IsNotFound r err then None else Some err)"

subsection \<open>\<^verbatim>\<open>applyClient\<close>\<close>

definition applyClient ::
  "'s reconciler \<Rightarrow> unstructured \<Rightarrow> 's \<Rightarrow> error option \<times> 's \<times> call list" where
  "applyClient r obj s =
     (let key = (GetNamespace obj, GetName obj);
          got = client_Get r s (GroupVersionKind obj) key;
          c1 = Get_Object (GroupVersionKind obj) key got
      in case got of
           Inl err \<Rightarrow>
             if \<not> errors_IsNotFound r err then (Some err, s, [c1])
             else (case client_Create r s obj of
                     (e, s') \<Rightarrow> (e, s', [c1, Create_Object obj e]))
         | Inr existing \<Rightarrow>
             (let obj' = obj\<lparr>GetResourceVersion := GetResourceVersion existing\<rparr>
              in case client_Update r s obj' of
                   (e, s') \<Rightarrow> (e, s', [c1, Update_Object obj' e])))"

subsection \<open>\<^verbatim>\<open>replacePlaceholders\<close>\<close>

text \<open>
  \<^verbatim>\<open>parameters\<close> is declared nil. When the decoder returns no error and leaves it nil,
  the assignment \<^verbatim>\<open>parameters["completeNotifyUrl"] = ...\<close> is an assignment to an entry of
  a nil map, which panics in Go.
\<close>

definition replacePlaceholders ::
  "'s reconciler \<Rightarrow> string \<Rightarrow> dataset \<Rightarrow> (error + string) outcome \<times> call list" where
  "replacePlaceholders r yamlStr ds =
     (let blob = Parameters (Plugin (DatasetMetadata (Spec ds)));
          decoded = json_Unmarshal r blob;
          c1 = Json_Unmarshal blob decoded
      in case decoded of
           Inl err \<Rightarrow> (Returned (Inl err), [c1])
         | Inr None \<Rightarrow> (Panicked ''assignment to entry in nil map'', [c1])
         | Inr (Some parameters) \<Rightarrow>
             (let parameters' =
                    parameters(''completeNotifyUrl'' \<mapsto> JString (GetCompleteNotifyURL r));
                  replaced = parser_ReplaceTemplate r yamlStr parameters';
                  c2 = Replace_Template yamlStr parameters' replaced
              in case replaced of
                   Inl err \<Rightarrow> (Returned (Inl err), [c1, c2])
                 | Inr replacedYamlStr \<Rightarrow> (Returned (Inr replacedYamlStr), [c1, c2])))"

subsection \<open>\<^verbatim>\<open>applyYAML\<close>\<close>

definition applyYAML ::
  "'s reconciler \<Rightarrow> string \<Rightarrow> dataset \<Rightarrow> 's \<Rightarrow> error option outcome \<times> 's \<times> call list" where
  "applyYAML r path ds s =
     (let yamlFile = os_ReadFile r path;
          c1 = Read_File path yamlFile
      in case yamlFile of
           Inl err \<Rightarrow> (Returned (Some err), s, [c1])
         | Inr yamlStr \<Rightarrow>
             (case replacePlaceholders r yamlStr ds of
                (Panicked msg, cs) \<Rightarrow> (Panicked msg, s, c1 # cs)
              | (Returned (Inl err), cs) \<Rightarrow> (Returned (Some err), s, c1 # cs)
              | (Returned (Inr replacedYamlStr), cs) \<Rightarrow>
                  (let decoded = yaml_Decode r replacedYamlStr;
                       c2 = Yaml_Decode replacedYamlStr decoded
                   in case decoded of
                        Inl err \<Rightarrow> (Returned (Some err), s, c1 # cs @ [c2])
                      | Inr unstructuredObj \<Rightarrow>
                          (let obj1 = unstructuredObj\<lparr>GetNamespace := Dataset_Namespace ds\<rparr>;
                               owned = ctrl_SetControllerReference r ds obj1;
                               c3 = Set_ControllerReference ds obj1 owned
                           in case owned of
                                Inl err \<Rightarrow> (Returned (Some err), s, c1 # cs @ [c2, c3])
                              | Inr obj2 \<Rightarrow>
                                  (case applyClient r obj2 s of
                                     (e, s', cs') \<Rightarrow>
                                       (Returned e, s', c1 # cs @ [c2, c3] @ cs'))))))"

subsection \<open>\<^verbatim>\<open>Reconcile\<close>\<close>

text \<open>
  Every \<^verbatim>\<open>return\<close> of \<^verbatim>\<open>Reconcile\<close> gives the empty \<^verbatim>\<open>ctrl.Result{}\<close>, so the result is the
  error alone. \<open>Reconcile_plugin\<close> is the second half of the function, from the
  declaration of \<^verbatim>\<open>dataPlugin\<close> to the last \<^verbatim>\<open>return\<close>.
\<close>

definition Reconcile_plugin ::
  "'s reconciler \<Rightarrow> dataset \<Rightarrow> 's \<Rightarrow> error option outcome \<times> 's \<times> call list" where
  "Reconcile_plugin r ds s =
     (if LoadPlugin (Plugin (DatasetMetadata (Spec ds))) then
        (let dataPluginName = Name (Plugin (DatasetMetadata (Spec ds)));
             key = (GetDatatunerxSystemNamespace r, dataPluginName);
             got = client_Get_DataPlugin r s key;
             c1 = Get_DataPlugin key got
         in case got of
              Inl err \<Rightarrow> (Returned (IgnoreNotFound r err), s, [c1])
            | Inr dataPlugin \<Rightarrow>
                (let pluginPath =
                       filepath_Join r
                         [''plugins'', DatasetClass (DataPlugin_Spec dataPlugin),
                          Provider (DataPlugin_Spec dataPlugin), ''plugin.yaml'']
                 in case applyYAML r pluginPath ds s of
                      (out, s', cs) \<Rightarrow> (out, s', c1 # cs)))
      else (Returned None, s, []))"

definition Reconcile ::
  "'s reconciler \<Rightarrow> string \<times> string \<Rightarrow> 's \<Rightarrow> error option outcome \<times> 's \<times> call list" where
  "Reconcile r req s =
     (let got = client_Get_Dataset r s req;
          c1 = Get_Dataset req got
      in case got of
           Inl err \<Rightarrow> (Returned (IgnoreNotFound r err), s, [c1])
         | Inr ds \<Rightarrow>
             if \<not> isSubsetInfoValid (Subsets (DatasetInfo (DatasetMetadata (Spec ds)))) then
               (let ds' = ds\<lparr>Status := (Status ds)\<lparr>State := DatasetUnready\<rparr>\<rparr>
                in case client_Status_Update r s ds' of
                     (Some err, s') \<Rightarrow> (Returned (Some err), s', [c1, Status_Update ds' (Some err)])
                   | (None, s') \<Rightarrow>
                       (case Reconcile_plugin r ds' s' of
                          (out, s'', cs) \<Rightarrow> (out, s'', c1 # Status_Update ds' None # cs)))
             else (case Reconcile_plugin r ds s of
                     (out, s', cs) \<Rightarrow> (out, s', c1 # cs)))"

section \<open>A cluster and collaborators to run the controller on\<close>

text \<open>
  The properties below hold for every record of collaborators. To run the controller on
  concrete inputs, this section builds one: a small in-memory cluster with version
  tokens, and stand-ins for the libraries that answer on the few inputs used here.

  A document is stored under its group/version/kind, namespace and name. A create of a
  stored identity and an update of a missing one fail; an update whose token is not the
  stored one fails with a conflict. A create stores the document with the token \<open>1\<close>.
  With \<open>cluster_Update\<close> an update that changes nothing is a no-op and an update that
  changes something stores the document under the next token; with
  \<open>cluster_Update_fresh\<close> every update stores the document under the next token.
  While \<open>status_conflict\<close> is set, status updates are rejected.
\<close>

record cluster =
  datasets :: "((string \<times> string) \<times> dataset) list"
  dataPlugins :: "((string \<times> string) \<times> data_plugin) list"
  documents :: "(((string \<times> string \<times> string) \<times> string \<times> string) \<times> unstructured) list"
  status_conflict :: bool

text \<open>
  \<open>NotFound\<close> is the not-found error of the cluster, the one \<^verbatim>\<open>client.IgnoreNotFound\<close>
  drops. \<open>QiniuNotFound\<close> is the not-found value of \<^verbatim>\<open>github.com/qiniu/x/errors\<close>, the
  one its \<^verbatim>\<open>IsNotFound\<close> accepts; no call of the cluster returns it.
\<close>

definition NotFound :: error where
  "NotFound = GoError ''NotFound''"

definition QiniuNotFound :: error where
  "QiniuNotFound = GoError ''qiniu/x/errors: not found''"

definition identity :: "unstructured \<Rightarrow> (string \<times> string \<times> string) \<times> string \<times> string" where
  "identity obj = (GroupVersionKind obj, GetNamespace obj, GetName obj)"

definition cluster_Get_Dataset :: "cluster \<Rightarrow> string \<times> string \<Rightarrow> error + dataset" where
  "cluster_Get_Dataset s key =
     (case map_of (datasets s) key of None \<Rightarrow> Inl NotFound | Some ds \<Rightarrow> Inr ds)"

definition cluster_Status_Update :: "cluster \<Rightarrow> dataset \<Rightarrow> error option \<times> cluster" where
  "cluster_Status_Update s ds =
     (if status_conflict s then (Some (GoError ''Conflict''), s)
      else (None, s\<lparr>datasets :=
              AList.update (Dataset_Namespace ds, Dataset_Name ds) ds (datasets s)\<rparr>))"

definition cluster_Get_DataPlugin :: "cluster \<Rightarrow> string \<times> string \<Rightarrow> error + data_plugin" where
  "cluster_Get_DataPlugin s key =
     (case map_of (dataPlugins s) key of None \<Rightarrow> Inl NotFound | Some p \<Rightarrow> Inr p)"

definition cluster_Get ::
  "cluster \<Rightarrow> string \<times> string \<times> string \<Rightarrow> string \<times> string \<Rightarrow> error + unstructured" where
  "cluster_Get s gvk key =
     (case map_of (documents s) (gvk, key) of None \<Rightarrow> Inl NotFound | Some obj \<Rightarrow> Inr obj)"

definition cluster_Create :: "cluster \<Rightarrow> unstructured \<Rightarrow> error option \<times> cluster" where
  "cluster_Create s obj =
     (case map_of (documents s) (identity obj) of
        Some existing \<Rightarrow> (Some (GoError ''AlreadyExists''), s)
      | None \<Rightarrow>
          (None, s\<lparr>documents :=
             AList.update (identity obj) (obj\<lparr>GetResourceVersion := ''1''\<rparr>) (documents s)\<rparr>))"

definition cluster_Update :: "cluster \<Rightarrow> unstructured \<Rightarrow> error option \<times> cluster" where
  "cluster_Update s obj =
     (case map_of (documents s) (identity obj) of
        None \<Rightarrow> (Some NotFound, s)
      | Some existing \<Rightarrow>
          if GetResourceVersion obj \<noteq> GetResourceVersion existing then (Some (GoError ''Conflict''), s)
          else if obj = existing then (None, s)
          else (None, s\<lparr>documents :=
                  AList.update (identity obj)
                    (obj\<lparr>GetResourceVersion := GetResourceVersion existing @ ''1''\<rparr>)
                    (documents s)\<rparr>))"

definition cluster_Update_fresh :: "cluster \<Rightarrow> unstructured \<Rightarrow> error option \<times> cluster" where
  "cluster_Update_fresh s obj =
     (case map_of (documents s) (identity obj) of
        None \<Rightarrow> (Some NotFound, s)
      | Some existing \<Rightarrow>
          if GetResourceVersion obj \<noteq> GetResourceVersion existing then (Some (GoError ''Conflict''), s)
          else (None, s\<lparr>documents :=
                  AList.update (identity obj)
                    (obj\<lparr>GetResourceVersion := GetResourceVersion existing @ ''1''\<rparr>)
                    (documents s)\<rparr>))"

text \<open>
  The stand-ins for the libraries. The decoder answers as \<^verbatim>\<open>json.Unmarshal\<close> does into a
  nil \<^verbatim>\<open>map[string]interface{}\<close> on four blobs: the literal \<^verbatim>\<open>null\<close> leaves the map nil
  without an error, \<^verbatim>\<open>{}\<close> gives the empty map, an object with the one key
  \<^verbatim>\<open>completeNotifyUrl\<close> gives that entry, and the empty blob is the error
  \<^verbatim>\<open>unexpected end of JSON input\<close>. The renderer appends the value of
  \<^verbatim>\<open>completeNotifyUrl\<close> to the template, the YAML decoder wraps the text in a document
  named \<open>loader\<close>, and \<^verbatim>\<open>SetControllerReference\<close> appends a controller reference.
\<close>

definition blob_with_url :: string where
  "blob_with_url =
     ''{'' @ [CHR 0x22] @ ''completeNotifyUrl'' @ [CHR 0x22] @ '':'' @
     [CHR 0x22] @ ''http://user'' @ [CHR 0x22] @ ''}''"

definition demo_Unmarshal :: "string \<Rightarrow> error + parameters option" where
  "demo_Unmarshal blob =
     (if blob = ''null'' then Inr None
      else if blob = ''{}'' then Inr (Some Map.empty)
      else if blob = blob_with_url
        then Inr (Some [''completeNotifyUrl'' \<mapsto> JString ''http://user''])
      else if blob = '''' then Inl (GoError ''unexpected end of JSON input'')
      else Inl (GoError ''invalid character''))"

definition demo_ReplaceTemplate :: "string \<Rightarrow> parameters \<Rightarrow> error + string" where
  "demo_ReplaceTemplate yamlStr ps =
     (case ps ''completeNotifyUrl'' of
        Some (JString url) \<Rightarrow> Inr (yamlStr @ url)
      | _ \<Rightarrow> Inl (GoError ''unresolved placeholder''))"

definition demo_Decode :: "string \<Rightarrow> error + unstructured" where
  "demo_Decode rendered =
     Inr \<lparr>GroupVersionKind = (''batch'', ''v1'', ''Job''), GetName = ''loader'',
          GetNamespace = '''', GetResourceVersion = '''', GetOwnerReferences = [],
          Object = [(''manifest'', JString rendered)]\<rparr>"

definition controller_ref :: "dataset \<Rightarrow> owner_reference" where
  "controller_ref ds =
     \<lparr>Ref_Kind = ''Dataset'', Ref_Name = Dataset_Name ds, Ref_UID = Dataset_UID ds,
      Controller = True\<rparr>"

definition demo_SetControllerReference :: "dataset \<Rightarrow> unstructured \<Rightarrow> error + unstructured" where
  "demo_SetControllerReference ds obj =
     Inr (obj\<lparr>GetOwnerReferences := GetOwnerReferences obj @ [controller_ref ds]\<rparr>)"

fun demo_Join :: "string list \<Rightarrow> string" where
  "demo_Join [] = ''''"
| "demo_Join [x] = x"
| "demo_Join (x # y # ys) = x @ ''/'' @ demo_Join (y # ys)"

definition demo_ReadFile :: "string \<Rightarrow> error + string" where
  "demo_ReadFile path =
     (if path = ''plugins/text/acme/plugin.yaml'' then Inr ''notify: ''
      else Inl (GoError ''no such file or directory''))"

definition demo_GetString :: "string \<Rightarrow> string" where
  "demo_GetString k = (if k = ''complete_notify_url'' then ''http://notify'' else '''')"

definition demo :: "cluster reconciler" where
  "demo =
     \<lparr>client_Get_Dataset = cluster_Get_Dataset,
      client_Status_Update = cluster_Status_Update,
      client_Get_DataPlugin = cluster_Get_DataPlugin,
      client_Get = cluster_Get,
      client_Update = cluster_Update,
      client_Create = cluster_Create,
      apierrors_IsNotFound = (\<lambda>err. err = NotFound),
      errors_IsNotFound = (\<lambda>err. err = QiniuNotFound),
      os_ReadFile = demo_ReadFile,
      filepath_Join = demo_Join,
      json_Unmarshal = demo_Unmarshal,
      parser_ReplaceTemplate = demo_ReplaceTemplate,
      yaml_Decode = demo_Decode,
      ctrl_SetControllerReference = demo_SetControllerReference,
      viper_GetString = demo_GetString,
      GetDatatunerxSystemNamespace = ''datatunerx-dev''\<rparr>"

definition demo_fresh :: "cluster reconciler" where
  "demo_fresh = demo\<lparr>client_Update := cluster_Update_fresh\<rparr>"

text \<open>Datasets, a plugin descriptor and clusters for the examples.\<close>

definition mk_subset :: "string \<Rightarrow> string \<Rightarrow> subset" where
  "mk_subset train test = \<lparr>Splits = \<lparr>Train = \<lparr>File = train\<rparr>, Test = \<lparr>File = test\<rparr>\<rparr>\<rparr>"

definition mk_dataset :: "string \<Rightarrow> subset list \<Rightarrow> plugin \<Rightarrow> dataset" where
  "mk_dataset name subsets plug =
     \<lparr>Dataset_Namespace = ''default'', Dataset_Name = name, Dataset_UID = ''uid-'' @ name,
      Spec = \<lparr>DatasetMetadata = \<lparr>DatasetInfo = \<lparr>Subsets = subsets\<rparr>, Plugin = plug\<rparr>\<rparr>,
      Status = \<lparr>State = StateUnset\<rparr>\<rparr>"

definition mk_cluster ::
  "dataset list \<Rightarrow> unstructured list \<Rightarrow> cluster" where
  "mk_cluster dss objs =
     \<lparr>datasets = map (\<lambda>ds. ((Dataset_Namespace ds, Dataset_Name ds), ds)) dss,
      dataPlugins =
        [((''datatunerx-dev'', ''p1''),
          \<lparr>DataPlugin_Spec = \<lparr>DatasetClass = ''text'', Provider = ''acme''\<rparr>\<rparr>)],
      documents = map (\<lambda>obj. (identity obj, obj)) objs,
      status_conflict = False\<rparr>"

definition job :: "string \<Rightarrow> string \<Rightarrow> unstructured" where
  "job token rendered =
     \<lparr>GroupVersionKind = (''batch'', ''v1'', ''Job''), GetName = ''loader'',
      GetNamespace = ''default'', GetResourceVersion = token, GetOwnerReferences = [],
      Object = [(''manifest'', JString rendered)]\<rparr>"



definition ds1 :: dataset where
  "ds1 = mk_dataset ''ds-1'' [mk_subset ''train.csv'' '''']
           \<lparr>LoadPlugin = True, Name = ''p1'', Parameters = ''{}''\<rparr>"

definition ds2 :: dataset where
  "ds2 = mk_dataset ''ds-2'' [mk_subset ''a'' ''b'']
           \<lparr>LoadPlugin = True, Name = ''p1'', Parameters = blob_with_url\<rparr>"

definition ds6 :: dataset where
  "ds6 = mk_dataset ''ds-6'' [mk_subset ''a'' ''b'']
           \<lparr>LoadPlugin = True, Name = ''missing'', Parameters = ''{}''\<rparr>"

definition ds9 :: dataset where
  "ds9 = mk_dataset ''ds-9'' [] \<lparr>LoadPlugin = False, Name = '''', Parameters = ''''\<rparr>"

definition ds4 :: dataset where
  "ds4 = mk_dataset ''ds-4'' [mk_subset ''a'' ''b'']
           \<lparr>LoadPlugin = True, Name = ''p1'', Parameters = ''''\<rparr>"

definition stamped :: "dataset \<Rightarrow> string \<Rightarrow> unstructured" where
  "stamped ds token =
     (job token ''notify: http://notify'')\<lparr>GetOwnerReferences := [controller_ref ds]\<rparr>"

definition unready :: "dataset \<Rightarrow> dataset" where
  "unready ds = ds\<lparr>Status := (Status ds)\<lparr>State := DatasetUnready\<rparr>\<rparr>"

fun call_name :: "call \<Rightarrow> string" where
  "call_name (Get_Dataset key a) = ''r.Get Dataset''"
| "call_name (Status_Update ds e) = ''r.Status().Update''"
| "call_name (Get_DataPlugin key a) = ''r.Get DataPlugin''"
| "call_name (Read_File path a) = ''os.ReadFile''"
| "call_name (Json_Unmarshal blob a) = ''json.Unmarshal''"
| "call_name (Replace_Template y ps a) = ''parser.ReplaceTemplate''"
| "call_name (Yaml_Decode y a) = ''Decode''"
| "call_name (Set_ControllerReference ds obj a) = ''ctrl.SetControllerReference''"
| "call_name (Get_Object gvk key a) = ''r.Get Unstructured''"
| "call_name (Update_Object obj e) = ''r.Update''"
| "call_name (Create_Object obj e) = ''r.Create''"

section \<open>Properties\<close>

lemmas demo_defs =
  demo_def demo_fresh_def NotFound_def QiniuNotFound_def identity_def
  cluster_Get_Dataset_def cluster_Status_Update_def cluster_Get_DataPlugin_def
  cluster_Get_def cluster_Create_def cluster_Update_def cluster_Update_fresh_def
  blob_with_url_def demo_Unmarshal_def demo_ReplaceTemplate_def demo_Decode_def
  controller_ref_def demo_SetControllerReference_def demo_ReadFile_def demo_GetString_def
  mk_subset_def mk_dataset_def mk_cluster_def job_def ds1_def ds2_def ds4_def ds6_def ds9_def
  stamped_def unready_def

lemmas controller_defs =
  Reconcile_def Reconcile_plugin_def applyYAML_def replacePlaceholders_def applyClient_def
  IgnoreNotFound_def GetCompleteNotifyURL_def Let_def


subsection \<open>The calls each function makes\<close>

lemma replacePlaceholders_calls:
  "replacePlaceholders r y ds = (out, cs) \<Longrightarrow> c \<in> set cs \<Longrightarrow>
     (\<exists>b a. c = Json_Unmarshal b a) \<or> (\<exists>t p a. c = Replace_Template t p a)"
  by (auto simp: replacePlaceholders_def Let_def split: sum.splits option.splits)

lemma replacePlaceholders_no_write:
  "replacePlaceholders r y ds = (out, cs) \<Longrightarrow> filter is_write cs = []"
  by (auto simp: replacePlaceholders_def Let_def split: sum.splits option.splits)

lemma applyClient_calls:
  "applyClient r obj s = (e, s', cs) \<Longrightarrow>
     (\<exists>got. cs = [got] \<and> \<not> is_write got \<and> is_manifest_call got \<and> e \<noteq> None \<and> s' = s) \<or>
     (\<exists>got w. cs = [got, w] \<and> \<not> is_write got \<and> is_manifest_call got \<and>
        (w = Create_Object obj e \<or> (\<exists>t. w = Update_Object (obj\<lparr>GetResourceVersion := t\<rparr>) e)))"
  by (auto simp: applyClient_def Let_def split: sum.splits prod.splits if_splits)

lemma applyClient_no_plugin_get:
  "applyClient r obj s = (e, s', cs) \<Longrightarrow> Get_DataPlugin k a \<notin> set cs"
  by (auto simp: applyClient_def Let_def split: sum.splits prod.splits if_splits)

lemma applyYAML_no_plugin_get:
  "applyYAML r path ds s = (out, s', cs) \<Longrightarrow> Get_DataPlugin k a \<notin> set cs"
  by (auto simp: applyYAML_def Let_def split: sum.splits prod.splits outcome.splits
           dest: replacePlaceholders_calls applyClient_no_plugin_get)

lemma applyYAML_shape:
  assumes "applyYAML r path ds s = (out, s', cs)"
  shows "filter is_write cs = [] \<or>
     (\<exists>pre rendered decoded owned e cs'.
        ctrl_SetControllerReference r ds (decoded\<lparr>GetNamespace := Dataset_Namespace ds\<rparr>) = Inr owned
        \<and> applyClient r owned s = (e, s', cs')
        \<and> cs = pre @ [Yaml_Decode rendered (Inr decoded),
                      Set_ControllerReference ds (decoded\<lparr>GetNamespace := Dataset_Namespace ds\<rparr>)
                        (Inr owned)] @ cs'
        \<and> filter is_write pre = [])"
proof (cases "os_ReadFile r path")
  case (Inl err)
  with assms show ?thesis by (auto simp: applyYAML_def)
next
  case (Inr yamlStr)
  obtain res ps where rp: "replacePlaceholders r yamlStr ds = (res, ps)"
    by (cases "replacePlaceholders r yamlStr ds")
  then have nw: "filter is_write ps = []"
    by (rule replacePlaceholders_no_write)
  show ?thesis
  proof (cases res)
    case (Panicked msg)
    with assms Inr rp nw show ?thesis by (auto simp: applyYAML_def)
  next
    case (Returned v)
    show ?thesis
    proof (cases v)
      case (Inl err)
      with assms Inr rp nw Returned show ?thesis by (auto simp: applyYAML_def)
    next
      case vr: (Inr replaced)
      show ?thesis
      proof (cases "yaml_Decode r replaced")
        case (Inl err)
        with assms Inr rp nw Returned vr show ?thesis by (auto simp: applyYAML_def)
      next
        case dec: (Inr decoded)
        let ?o1 = "decoded\<lparr>GetNamespace := Dataset_Namespace ds\<rparr>"
        show ?thesis
        proof (cases "ctrl_SetControllerReference r ds ?o1")
          case (Inl err)
          with assms Inr rp nw Returned vr dec show ?thesis by (auto simp: applyYAML_def)
        next
          case own: (Inr owned)
          obtain e s2 cs' where ac: "applyClient r owned s = (e, s2, cs')"
            by (cases "applyClient r owned s") auto
          with assms Inr rp Returned vr dec own
          have "s' = s2" and
            cs: "cs = (Read_File path (Inr yamlStr) # ps) @
                   [Yaml_Decode replaced (Inr decoded), Set_ControllerReference ds ?o1 (Inr owned)] @ cs'"
            by (auto simp: applyYAML_def)
          moreover have "filter is_write (Read_File path (Inr yamlStr) # ps) = []"
            using nw by simp
          ultimately show ?thesis using own ac by blast
        qed
      qed
    qed
  qed
qed

subsection \<open>Subset readiness\<close>

text \<open>
  C7. \<open>isSubsetInfoValid\<close> answers true exactly when some subset of the list has a
  non-empty train file and a non-empty test file; on the empty list it answers false.
\<close>

theorem isSubsetInfoValid_iff:
  "(isSubsetInfoValid subsets \<longleftrightarrow>
      (\<exists>s \<in> set subsets. File (Train (Splits s)) \<noteq> '''' \<and> File (Test (Splits s)) \<noteq> ''''))
   \<and> isSubsetInfoValid [] = False"
  by (induction subsets) auto

theorem isSubsetInfoValid_iff_witness:
  "isSubsetInfoValid [mk_subset ''train.csv'' '''', mk_subset ''a'' ''b'']
   \<and> \<not> isSubsetInfoValid [mk_subset ''train.csv'' '''']"
  using isSubsetInfoValid_iff [of "[mk_subset ''train.csv'' '''', mk_subset ''a'' ''b'']"]
        isSubsetInfoValid_iff [of "[mk_subset ''train.csv'' '''']"]
  by (simp add: mk_subset_def)


subsection \<open>The Dataset is gone\<close>

text \<open>
  C5. When the read of the Dataset answers with an error that \<^verbatim>\<open>client.IgnoreNotFound\<close>
  drops, \<open>Reconcile\<close> returns no error, leaves the cluster as it is and has made no
  other call than that read.
\<close>

theorem Reconcile_dataset_not_found:
  assumes "client_Get_Dataset r s req = Inl err" and "apierrors_IsNotFound r err"
  shows "Reconcile r req s = (Returned None, s, [Get_Dataset req (Inl err)])"
  using assms by (simp add: Reconcile_def IgnoreNotFound_def)

theorem Reconcile_dataset_not_found_witness:
  "Reconcile demo (''default'', ''gone'') (mk_cluster [] []) =
       (Returned None, mk_cluster [] [], [Get_Dataset (''default'', ''gone'') (Inl NotFound)])"
proof -
  have g: "client_Get_Dataset demo (mk_cluster [] []) (''default'', ''gone'') = Inl NotFound"
    by (simp add: demo_defs)
  have n: "apierrors_IsNotFound demo NotFound"
    by (simp add: demo_defs)
  from Reconcile_dataset_not_found [OF g n] show ?thesis .
qed


subsection \<open>The plugin descriptor is missing\<close>

text \<open>
  C6. In every run of \<open>Reconcile\<close> in which the read of the plugin descriptor answers
  with an error that \<^verbatim>\<open>client.IgnoreNotFound\<close> drops, the result is no error, the
  descriptor read is the only call of the manifest pipeline, no document is created or
  updated, and the cluster is the one the run started in or the one the status write
  of the Dataset left.
\<close>

theorem Reconcile_plugin_not_found:
  assumes run: "Reconcile r req s = (out, s', cs)"
      and got: "Get_DataPlugin key (Inl err) \<in> set cs"
      and nf: "apierrors_IsNotFound r err"
  shows "out = Returned None
     \<and> filter is_manifest_call cs = [Get_DataPlugin key (Inl err)]
     \<and> filter is_write cs = []
     \<and> (s' = s \<or> (\<exists>ds. Status_Update ds None \<in> set cs \<and> s' = snd (client_Status_Update r s ds)))"
  using assms
  by (auto simp: Reconcile_def Reconcile_plugin_def IgnoreNotFound_def Let_def
           split: sum.splits prod.splits option.splits if_splits
           dest: applyYAML_no_plugin_get)

theorem Reconcile_plugin_not_found_witness:
  "Reconcile demo (''default'', ''ds-6'') (mk_cluster [ds6] []) =
     (Returned None, mk_cluster [ds6] [],
      [Get_Dataset (''default'', ''ds-6'') (Inr ds6),
       Get_DataPlugin (''datatunerx-dev'', ''missing'') (Inl NotFound)])
   \<and> filter is_write
        [Get_Dataset (''default'', ''ds-6'') (Inr ds6),
         Get_DataPlugin (''datatunerx-dev'', ''missing'') (Inl NotFound)] = []"
proof -
  have run: "Reconcile demo (''default'', ''ds-6'') (mk_cluster [ds6] []) =
     (Returned None, mk_cluster [ds6] [],
      [Get_Dataset (''default'', ''ds-6'') (Inr ds6),
       Get_DataPlugin (''datatunerx-dev'', ''missing'') (Inl NotFound)])"
    by (simp add: controller_defs demo_defs)
  have n: "apierrors_IsNotFound demo NotFound"
    by (simp add: demo_defs)
  from Reconcile_plugin_not_found [OF run _ n, of "(''datatunerx-dev'', ''missing'')"] run
  show ?thesis by simp
qed


subsection \<open>Create or update\<close>

text \<open>
  The three branches of \<open>applyClient\<close>, for every record of collaborators. It reads the
  document stored under the identity of the one it is given. When the read answers
  with an error that \<^verbatim>\<open>errors.IsNotFound\<close> accepts, it issues a create of the document and
  returns what the create answers. When the read answers with a document, it copies
  that document's version token onto the new one, issues an update and returns what
  the update answers. When the read answers with any other error, it returns that
  error and issues no write.
\<close>

lemma applyClient_branches:
  "(\<forall>err. client_Get r s (GroupVersionKind obj) (GetNamespace obj, GetName obj) = Inl err
          \<and> errors_IsNotFound r err \<longrightarrow>
      applyClient r obj s =
        (fst (client_Create r s obj), snd (client_Create r s obj),
         [Get_Object (GroupVersionKind obj) (GetNamespace obj, GetName obj) (Inl err),
          Create_Object obj (fst (client_Create r s obj))]))
   \<and> (\<forall>existing. client_Get r s (GroupVersionKind obj) (GetNamespace obj, GetName obj) = Inr existing \<longrightarrow>
      applyClient r obj s =
        (fst (client_Update r s (obj\<lparr>GetResourceVersion := GetResourceVersion existing\<rparr>)),
         snd (client_Update r s (obj\<lparr>GetResourceVersion := GetResourceVersion existing\<rparr>)),
         [Get_Object (GroupVersionKind obj) (GetNamespace obj, GetName obj) (Inr existing),
          Update_Object (obj\<lparr>GetResourceVersion := GetResourceVersion existing\<rparr>)
            (fst (client_Update r s (obj\<lparr>GetResourceVersion := GetResourceVersion existing\<rparr>)))]))
   \<and> (\<forall>err. client_Get r s (GroupVersionKind obj) (GetNamespace obj, GetName obj) = Inl err
          \<and> \<not> errors_IsNotFound r err \<longrightarrow>
      applyClient r obj s =
        (Some err, s, [Get_Object (GroupVersionKind obj) (GetNamespace obj, GetName obj) (Inl err)]))"
  by (simp add: applyClient_def Let_def split: prod.splits)

text \<open>
  The not-found error of the store is such an other error whenever \<^verbatim>\<open>errors.IsNotFound\<close>
  does not accept what \<^verbatim>\<open>client.IgnoreNotFound\<close> drops: the read error is returned and
  nothing is created.
\<close>

lemma applyClient_not_found_returned:
  assumes "client_Get r s (GroupVersionKind obj) (GetNamespace obj, GetName obj) = Inl err"
      and "apierrors_IsNotFound r err"
      and "\<not> errors_IsNotFound r err"
  shows "applyClient r obj s =
           (Some err, s, [Get_Object (GroupVersionKind obj) (GetNamespace obj, GetName obj) (Inl err)])"
  using assms by (simp add: applyClient_def)

text \<open>
  C3. The claim has a missing document created. The Dataset \<open>ds2\<close> has a valid subset
  and asks for the plugin \<open>p1\<close>, and no document is stored. The read of \<open>applyClient\<close>
  answers with the not-found error of the cluster, which \<^verbatim>\<open>client.IgnoreNotFound\<close> drops
  and \<^verbatim>\<open>errors.IsNotFound\<close> of \<^verbatim>\<open>github.com/qiniu/x/errors\<close> does not accept. So
  \<open>applyClient\<close> returns the read error and issues no create, the cluster stays as it
  was, and \<open>Reconcile\<close> ends with that error after the read of the document. The comment
  of the branch says \<^verbatim>\<open>Resource does not exist, create it\<close>, and the two reads of
  \<open>Reconcile\<close> test their error with \<^verbatim>\<open>client.IgnoreNotFound\<close>.
\<close>

theorem applyClient_missing_not_created:
  "client_Get demo (mk_cluster [ds2] []) (GroupVersionKind (stamped ds2 ''''))
     (GetNamespace (stamped ds2 ''''), GetName (stamped ds2 '''')) = Inl NotFound
   \<and> apierrors_IsNotFound demo NotFound
   \<and> errors_IsNotFound demo NotFound = False
   \<and> applyClient demo (stamped ds2 '''') (mk_cluster [ds2] []) =
       (Some NotFound, mk_cluster [ds2] [],
        [Get_Object (''batch'', ''v1'', ''Job'') (''default'', ''loader'') (Inl NotFound)])
   \<and> fst (Reconcile demo (''default'', ''ds-2'') (mk_cluster [ds2] [])) = Returned (Some NotFound)
   \<and> fst (snd (Reconcile demo (''default'', ''ds-2'') (mk_cluster [ds2] []))) = mk_cluster [ds2] []
   \<and> map call_name (snd (snd (Reconcile demo (''default'', ''ds-2'') (mk_cluster [ds2] [])))) =
       [''r.Get Dataset'', ''r.Get DataPlugin'', ''os.ReadFile'', ''json.Unmarshal'',
        ''parser.ReplaceTemplate'', ''Decode'', ''ctrl.SetControllerReference'',
        ''r.Get Unstructured'']
   \<and> filter is_write (snd (snd (Reconcile demo (''default'', ''ds-2'') (mk_cluster [ds2] [])))) = []"
  by (simp add: controller_defs demo_defs)

subsection \<open>Applying a document twice\<close>

text \<open>The cluster of the examples reads back what was written and skips an unchanged update.\<close>

lemma cluster_reads_back:
  assumes "cluster_Create s obj = (None, s') \<or> cluster_Update s obj = (None, s')"
  shows "\<exists>t. cluster_Get s' (GroupVersionKind obj) (GetNamespace obj, GetName obj) =
               Inr (obj\<lparr>GetResourceVersion := t\<rparr>)"
  using assms
proof
  assume "cluster_Create s obj = (None, s')"
  then have "cluster_Get s' (GroupVersionKind obj) (GetNamespace obj, GetName obj) =
               Inr (obj\<lparr>GetResourceVersion := ''1''\<rparr>)"
    by (auto simp: cluster_Create_def cluster_Get_def identity_def update_conv'
             split: option.splits)
  then show ?thesis by blast
next
  assume u: "cluster_Update s obj = (None, s')"
  then obtain existing where
    e: "map_of (documents s) (identity obj) = Some existing"
    and v: "GetResourceVersion obj = GetResourceVersion existing"
    by (auto simp: cluster_Update_def split: option.splits if_splits)
  show ?thesis
  proof (cases "obj = existing")
    case True
    with u e have "s' = s" by (simp add: cluster_Update_def)
    with e True have "cluster_Get s' (GroupVersionKind obj) (GetNamespace obj, GetName obj) =
               Inr (obj\<lparr>GetResourceVersion := GetResourceVersion obj\<rparr>)"
      by (simp add: cluster_Get_def identity_def)
    then show ?thesis by blast
  next
    case False
    with u e v have "cluster_Get s' (GroupVersionKind obj) (GetNamespace obj, GetName obj) =
               Inr (obj\<lparr>GetResourceVersion := GetResourceVersion existing @ ''1''\<rparr>)"
      by (auto simp: cluster_Update_def cluster_Get_def identity_def update_conv')
    then show ?thesis by blast
  qed
qed

lemma cluster_unchanged_update:
  assumes "cluster_Get s (GroupVersionKind obj) (GetNamespace obj, GetName obj) = Inr obj"
  shows "cluster_Update s obj = (None, s)"
  using assms
  by (auto simp: cluster_Update_def cluster_Get_def identity_def split: option.splits)

text \<open>
  C2, as the code has it. Let the store answer a read that follows a successful create
  or update of a document with that document, up to its version token, and let it
  treat the update that writes back the document it holds as a no-op. Then, after an
  apply that returned no error, a second apply of the same document reads the stored
  document, takes the update branch with the stored token, returns no error and
  leaves the cluster as the first apply left it.
\<close>

theorem applyClient_twice:
  assumes reads_back:
        "\<And>s obj s'. client_Create r s obj = (None, s') \<or> client_Update r s obj = (None, s') \<Longrightarrow>
           \<exists>t. client_Get r s' (GroupVersionKind obj) (GetNamespace obj, GetName obj) =
                 Inr (obj\<lparr>GetResourceVersion := t\<rparr>)"
      and noop:
        "\<And>s obj. client_Get r s (GroupVersionKind obj) (GetNamespace obj, GetName obj) = Inr obj \<Longrightarrow>
           client_Update r s obj = (None, s)"
      and first: "applyClient r obj s = (None, s1, cs1)"
  shows "\<exists>t. applyClient r obj s1 =
           (None, s1,
            [Get_Object (GroupVersionKind obj) (GetNamespace obj, GetName obj)
               (Inr (obj\<lparr>GetResourceVersion := t\<rparr>)),
             Update_Object (obj\<lparr>GetResourceVersion := t\<rparr>) None])"
proof -
  let ?gvk = "GroupVersionKind obj" and ?key = "(GetNamespace obj, GetName obj)"
  have "\<exists>d. (client_Create r s d = (None, s1) \<or> client_Update r s d = (None, s1))
            \<and> GroupVersionKind d = ?gvk \<and> GetNamespace d = GetNamespace obj \<and> GetName d = GetName obj
            \<and> (\<forall>t. d\<lparr>GetResourceVersion := t\<rparr> = obj\<lparr>GetResourceVersion := t\<rparr>)"
    using first
    by (auto simp: applyClient_def Let_def split: sum.splits prod.splits if_splits)
  then obtain d where d: "client_Create r s d = (None, s1) \<or> client_Update r s d = (None, s1)"
    and same: "GroupVersionKind d = ?gvk" "GetNamespace d = GetNamespace obj" "GetName d = GetName obj"
      "\<And>t. d\<lparr>GetResourceVersion := t\<rparr> = obj\<lparr>GetResourceVersion := t\<rparr>"
    by blast
  from reads_back [OF d] same obtain t where
    g: "client_Get r s1 ?gvk ?key = Inr (obj\<lparr>GetResourceVersion := t\<rparr>)"
    by auto
  have "client_Update r s1 (obj\<lparr>GetResourceVersion := t\<rparr>) = (None, s1)"
    using noop [of s1 "obj\<lparr>GetResourceVersion := t\<rparr>"] g by simp
  with g have "applyClient r obj s1 =
           (None, s1, [Get_Object ?gvk ?key (Inr (obj\<lparr>GetResourceVersion := t\<rparr>)),
             Update_Object (obj\<lparr>GetResourceVersion := t\<rparr>) None])"
    by (simp add: applyClient_def Let_def)
  then show ?thesis by blast
qed

theorem applyClient_twice_witness:
  "applyClient demo (job '''' ''m'') (mk_cluster [] [job ''3'' ''old'']) =
     (None, mk_cluster [] [job ''31'' ''m''],
      [Get_Object (''batch'', ''v1'', ''Job'') (''default'', ''loader'') (Inr (job ''3'' ''old'')),
       Update_Object (job ''3'' ''m'') None])
   \<and> applyClient demo (job '''' ''m'') (mk_cluster [] [job ''31'' ''m'']) =
     (None, mk_cluster [] [job ''31'' ''m''],
      [Get_Object (''batch'', ''v1'', ''Job'') (''default'', ''loader'') (Inr (job ''31'' ''m'')),
       Update_Object (job ''31'' ''m'') None])"
proof -
  let ?obj = "job '''' ''m''"
  have first: "applyClient demo ?obj (mk_cluster [] [job ''3'' ''old'']) =
     (None, mk_cluster [] [job ''31'' ''m''],
      [Get_Object (''batch'', ''v1'', ''Job'') (''default'', ''loader'') (Inr (job ''3'' ''old'')),
       Update_Object (job ''3'' ''m'') None])"
    by (simp add: applyClient_def Let_def demo_defs)
  have rb: "\<And>s obj s'. client_Create demo s obj = (None, s') \<or> client_Update demo s obj = (None, s') \<Longrightarrow>
           \<exists>t. client_Get demo s' (GroupVersionKind obj) (GetNamespace obj, GetName obj) =
                 Inr (obj\<lparr>GetResourceVersion := t\<rparr>)"
    using cluster_reads_back by (simp add: demo_def)
  have np: "\<And>s obj. client_Get demo s (GroupVersionKind obj) (GetNamespace obj, GetName obj) = Inr obj \<Longrightarrow>
           client_Update demo s obj = (None, s)"
    using cluster_unchanged_update by (simp add: demo_def)
  have "\<exists>t. applyClient demo ?obj (mk_cluster [] [job ''31'' ''m'']) =
       (None, mk_cluster [] [job ''31'' ''m''],
        [Get_Object (GroupVersionKind ?obj) (GetNamespace ?obj, GetName ?obj)
           (Inr (?obj\<lparr>GetResourceVersion := t\<rparr>)),
         Update_Object (?obj\<lparr>GetResourceVersion := t\<rparr>) None])"
    by (rule applyClient_twice [OF _ _ first]; erule rb np)
  then obtain t where
    second: "applyClient demo ?obj (mk_cluster [] [job ''31'' ''m'']) =
       (None, mk_cluster [] [job ''31'' ''m''],
        [Get_Object (GroupVersionKind ?obj) (GetNamespace ?obj, GetName ?obj)
           (Inr (?obj\<lparr>GetResourceVersion := t\<rparr>)),
         Update_Object (?obj\<lparr>GetResourceVersion := t\<rparr>) None])"
    by blast
  have g: "client_Get demo (mk_cluster [] [job ''31'' ''m'']) (GroupVersionKind ?obj)
             (GetNamespace ?obj, GetName ?obj) = Inr (job ''31'' ''m'')"
    by (simp add: demo_defs)
  from second g have "?obj\<lparr>GetResourceVersion := t\<rparr> = job ''31'' ''m''"
    by (simp add: applyClient_def Let_def split: prod.splits)
  with second first show ?thesis
    by (simp add: job_def)
qed

text \<open>
  Without the second condition the store changes: with a store that gives every update
  a fresh token, the second apply of the same document succeeds through the update
  branch and moves the stored token from \<open>31\<close> to \<open>311\<close>.
\<close>

theorem applyClient_twice_fresh_token:
  "applyClient demo_fresh (job '''' ''m'') (mk_cluster [] [job ''3'' ''old'']) =
     (None, mk_cluster [] [job ''31'' ''m''],
      [Get_Object (''batch'', ''v1'', ''Job'') (''default'', ''loader'') (Inr (job ''3'' ''old'')),
       Update_Object (job ''3'' ''m'') None])
   \<and> applyClient demo_fresh (job '''' ''m'') (mk_cluster [] [job ''31'' ''m'']) =
     (None, mk_cluster [] [job ''311'' ''m''],
      [Get_Object (''batch'', ''v1'', ''Job'') (''default'', ''loader'') (Inr (job ''31'' ''m'')),
       Update_Object (job ''31'' ''m'') None])
   \<and> mk_cluster [] [job ''311'' ''m''] \<noteq> mk_cluster [] [job ''31'' ''m'']"
  by (simp add: applyClient_def Let_def demo_defs)

subsection \<open>Namespace and owner of a written document\<close>

text \<open>
  C8. Let \<^verbatim>\<open>SetControllerReference\<close>, where it succeeds, leave the namespace of the
  document as it is and make the Dataset its controller. Then every document that a
  run of \<open>applyYAML\<close> creates or updates has the namespace of the Dataset and is
  controlled by it; the write is the last call of the run and the only write, and the
  decoding, the stamping of the namespace and the setting of the owner precede it.
\<close>

theorem applyYAML_write_stamped:
  assumes run: "applyYAML r path ds s = (out, s', cs)"
      and contract: "\<And>obj obj'. ctrl_SetControllerReference r ds obj = Inr obj' \<Longrightarrow>
                       GetNamespace obj' = GetNamespace obj \<and> controlled_by ds obj'"
      and c: "c \<in> set cs" and w: "written c = Some obj"
  shows "GetNamespace obj = Dataset_Namespace ds \<and> controlled_by ds obj
     \<and> (\<exists>pre rendered decoded owned got.
           cs = pre @ [Yaml_Decode rendered (Inr decoded),
                       Set_ControllerReference ds (decoded\<lparr>GetNamespace := Dataset_Namespace ds\<rparr>) (Inr owned),
                       got, c]
           \<and> filter is_write (pre @ [got]) = [])"
proof -
  have isw: "is_write c" using w by (cases c) auto
  with c have "filter is_write cs \<noteq> []"
    by (auto simp: filter_empty_conv)
  with applyYAML_shape [OF run] obtain pre rendered decoded owned e cs' where
    own: "ctrl_SetControllerReference r ds (decoded\<lparr>GetNamespace := Dataset_Namespace ds\<rparr>) = Inr owned"
    and ac: "applyClient r owned s = (e, s', cs')"
    and cs: "cs = pre @ [Yaml_Decode rendered (Inr decoded),
                      Set_ControllerReference ds (decoded\<lparr>GetNamespace := Dataset_Namespace ds\<rparr>)
                        (Inr owned)] @ cs'"
    and pre: "filter is_write pre = []"
    by blast
  from contract [OF own] have ns: "GetNamespace owned = Dataset_Namespace ds"
    and cb: "controlled_by ds owned" by simp_all
  from c isw cs pre have c': "c \<in> set cs'"
    by (auto simp: filter_empty_conv)
  from applyClient_calls [OF ac] c' isw
  have "\<exists>got. cs' = [got, c] \<and> \<not> is_write got
          \<and> (c = Create_Object owned e \<or> (\<exists>t. c = Update_Object (owned\<lparr>GetResourceVersion := t\<rparr>) e))"
    by auto
  then obtain got where
    cs': "cs' = [got, c]" and got: "\<not> is_write got"
    and cw: "c = Create_Object owned e \<or> (\<exists>t. c = Update_Object (owned\<lparr>GetResourceVersion := t\<rparr>) e)"
    by blast
  from cw w have "obj = owned \<or> (\<exists>t. obj = owned\<lparr>GetResourceVersion := t\<rparr>)"
    by auto
  with ns cb have "GetNamespace obj = Dataset_Namespace ds \<and> controlled_by ds obj"
    by (auto simp: controlled_by_def)
  moreover have "cs = pre @ [Yaml_Decode rendered (Inr decoded),
                       Set_ControllerReference ds (decoded\<lparr>GetNamespace := Dataset_Namespace ds\<rparr>) (Inr owned),
                       got, c] \<and> filter is_write (pre @ [got]) = []"
    using cs cs' pre got by simp
  ultimately show ?thesis by blast
qed

theorem applyYAML_write_stamped_witness:
  "filter is_write
     (snd (snd (applyYAML demo ''plugins/text/acme/plugin.yaml'' ds2
                  (mk_cluster [ds2] [job ''3'' ''old''])))) =
     [Update_Object (stamped ds2 ''3'') None]
   \<and> GetNamespace (stamped ds2 ''3'') = Dataset_Namespace ds2
   \<and> controlled_by ds2 (stamped ds2 ''3'')"
proof -
  obtain out s' cs where
    run: "applyYAML demo ''plugins/text/acme/plugin.yaml'' ds2 (mk_cluster [ds2] [job ''3'' ''old'']) =
            (out, s', cs)"
    by (cases "applyYAML demo ''plugins/text/acme/plugin.yaml'' ds2 (mk_cluster [ds2] [job ''3'' ''old''])")
  then have fw: "filter is_write cs = [Update_Object (stamped ds2 ''3'') None]"
    by (auto simp: controller_defs demo_defs)
  then have "Update_Object (stamped ds2 ''3'') None \<in> set (filter is_write cs)"
    by simp
  then have c: "Update_Object (stamped ds2 ''3'') None \<in> set cs"
    by simp
  have w: "written (Update_Object (stamped ds2 ''3'') None) = Some (stamped ds2 ''3'')"
    by simp
  have contract: "\<And>obj obj'. ctrl_SetControllerReference demo ds2 obj = Inr obj' \<Longrightarrow>
                       GetNamespace obj' = GetNamespace obj \<and> controlled_by ds2 obj'"
    by (auto simp: demo_def demo_SetControllerReference_def controlled_by_def controller_ref_def)
  have "GetNamespace (stamped ds2 ''3'') = Dataset_Namespace ds2 \<and> controlled_by ds2 (stamped ds2 ''3'')
     \<and> (\<exists>pre rendered decoded owned got.
           cs = pre @ [Yaml_Decode rendered (Inr decoded),
                       Set_ControllerReference ds2 (decoded\<lparr>GetNamespace := Dataset_Namespace ds2\<rparr>) (Inr owned),
                       got, Update_Object (stamped ds2 ''3'') None]
           \<and> filter is_write (pre @ [got]) = [])"
    by (rule applyYAML_write_stamped [OF run _ c w]; erule contract)
  with fw run show ?thesis by simp
qed

subsection \<open>A Dataset that is not ready\<close>

text \<open>
  C1. The Dataset \<open>ds1\<close> has one subset with a train file and no test file, and asks
  for the plugin \<open>p1\<close>; the document of the plugin is already stored with the token
  \<open>3\<close>. \<open>Reconcile\<close> writes the status UNREADY and then goes on: it reads the plugin
  descriptor and the template, renders, decodes and updates the stored document. The
  \<^verbatim>\<open>return\<close> after the status write is inside the \<^verbatim>\<open>if err != nil\<close> of that write, so a
  successful write does not end the cycle.
\<close>

theorem Reconcile_unready_still_applies:
  "\<not> isSubsetInfoValid (Subsets (DatasetInfo (DatasetMetadata (Spec ds1))))
   \<and> fst (Reconcile demo (''default'', ''ds-1'') (mk_cluster [ds1] [job ''3'' ''old''])) = Returned None
   \<and> fst (snd (Reconcile demo (''default'', ''ds-1'') (mk_cluster [ds1] [job ''3'' ''old'']))) =
       mk_cluster [unready ds1] [stamped ds1 ''31'']
   \<and> map call_name (snd (snd (Reconcile demo (''default'', ''ds-1'') (mk_cluster [ds1] [job ''3'' ''old''])))) =
       [''r.Get Dataset'', ''r.Status().Update'', ''r.Get DataPlugin'', ''os.ReadFile'',
        ''json.Unmarshal'', ''parser.ReplaceTemplate'', ''Decode'', ''ctrl.SetControllerReference'',
        ''r.Get Unstructured'', ''r.Update'']
   \<and> filter is_write (snd (snd (Reconcile demo (''default'', ''ds-1'') (mk_cluster [ds1] [job ''3'' ''old''])))) =
       [Update_Object (stamped ds1 ''3'') None]
   \<and> Status_Update (unready ds1) None
        \<in> set (snd (snd (Reconcile demo (''default'', ''ds-1'') (mk_cluster [ds1] [job ''3'' ''old'']))))"
  by (simp add: controller_defs demo_defs)

text \<open>In general: after a successful status write the cycle continues with the plugin.\<close>

lemma Reconcile_unready_continues:
  assumes "client_Get_Dataset r s req = Inr ds"
      and "\<not> isSubsetInfoValid (Subsets (DatasetInfo (DatasetMetadata (Spec ds))))"
      and "client_Status_Update r s (unready ds) = (None, s1)"
  shows "Reconcile r req s =
           (case Reconcile_plugin r (unready ds) s1 of
              (out, s2, cs) \<Rightarrow>
                (out, s2, Get_Dataset req (Inr ds) # Status_Update (unready ds) None # cs))"
  using assms by (simp add: Reconcile_def unready_def Let_def)

subsection \<open>A Dataset that asks for no plugin\<close>

text \<open>
  C9, as the code has it. For a Dataset whose \<^verbatim>\<open>LoadPlugin\<close> is false, \<open>Reconcile\<close> makes
  no call of the manifest pipeline. With a valid subset the only call is the read of
  the Dataset and the result is no error. With no valid subset the status write follows,
  and the result of the cycle is the answer of that write: no error when it succeeds,
  its error when it fails.
\<close>

theorem Reconcile_LoadPlugin_false:
  assumes "client_Get_Dataset r s req = Inr ds"
      and "\<not> LoadPlugin (Plugin (DatasetMetadata (Spec ds)))"
  shows "Reconcile r req s =
     (if isSubsetInfoValid (Subsets (DatasetInfo (DatasetMetadata (Spec ds))))
      then (Returned None, s, [Get_Dataset req (Inr ds)])
      else (Returned (fst (client_Status_Update r s (unready ds))),
            snd (client_Status_Update r s (unready ds)),
            [Get_Dataset req (Inr ds),
             Status_Update (unready ds) (fst (client_Status_Update r s (unready ds)))]))
     \<and> filter is_manifest_call (snd (snd (Reconcile r req s))) = []"
  using assms
  by (simp add: Reconcile_def Reconcile_plugin_def unready_def Let_def split: prod.splits option.splits)

theorem Reconcile_LoadPlugin_false_witness:
  "Reconcile demo (''default'', ''ds-9'') (mk_cluster [ds9] []) =
     (Returned None, mk_cluster [unready ds9] [],
      [Get_Dataset (''default'', ''ds-9'') (Inr ds9), Status_Update (unready ds9) None])
   \<and> filter is_manifest_call (snd (snd (Reconcile demo (''default'', ''ds-9'') (mk_cluster [ds9] [])))) = []"
proof -
  have g: "client_Get_Dataset demo (mk_cluster [ds9] []) (''default'', ''ds-9'') = Inr ds9"
    by (simp add: demo_defs)
  have l: "\<not> LoadPlugin (Plugin (DatasetMetadata (Spec ds9)))"
    by (simp add: demo_defs)
  have v: "\<not> isSubsetInfoValid (Subsets (DatasetInfo (DatasetMetadata (Spec ds9))))"
    by (simp add: demo_defs)
  have u: "client_Status_Update demo (mk_cluster [ds9] []) (unready ds9) =
             (None, mk_cluster [unready ds9] [])"
    by (simp add: demo_defs)
  from Reconcile_LoadPlugin_false [OF g l] show ?thesis
    by (simp add: v u)
qed

text \<open>
  The cycle does not always end successfully: here the Dataset has no subset and the
  cluster rejects the status write.
\<close>

theorem Reconcile_status_conflict:
  "client_Get_Dataset demo ((mk_cluster [ds9] [])\<lparr>status_conflict := True\<rparr>) (''default'', ''ds-9'') = Inr ds9
   \<and> LoadPlugin (Plugin (DatasetMetadata (Spec ds9))) = False
   \<and> Reconcile demo (''default'', ''ds-9'') ((mk_cluster [ds9] [])\<lparr>status_conflict := True\<rparr>) =
       (Returned (Some (GoError ''Conflict'')), (mk_cluster [ds9] [])\<lparr>status_conflict := True\<rparr>,
        [Get_Dataset (''default'', ''ds-9'') (Inr ds9),
         Status_Update (unready ds9) (Some (GoError ''Conflict''))])"
  by (simp add: controller_defs demo_defs)

subsection \<open>The parameter blob\<close>

text \<open>
  C4, as the code has it. An error of the decoder is returned as it is and the renderer
  is not called. When the decoder gives the empty map, the renderer receives exactly
  the entry \<^verbatim>\<open>completeNotifyUrl\<close> and its answer is returned.
\<close>

theorem replacePlaceholders_decoded:
  "(\<forall>err. json_Unmarshal r (Parameters (Plugin (DatasetMetadata (Spec ds)))) = Inl err \<longrightarrow>
      replacePlaceholders r yamlStr ds =
        (Returned (Inl err),
         [Json_Unmarshal (Parameters (Plugin (DatasetMetadata (Spec ds)))) (Inl err)]))
   \<and> (json_Unmarshal r (Parameters (Plugin (DatasetMetadata (Spec ds)))) = Inr (Some Map.empty) \<longrightarrow>
      replacePlaceholders r yamlStr ds =
        (Returned (parser_ReplaceTemplate r yamlStr
                     [''completeNotifyUrl'' \<mapsto> JString (GetCompleteNotifyURL r)]),
         [Json_Unmarshal (Parameters (Plugin (DatasetMetadata (Spec ds)))) (Inr (Some Map.empty)),
          Replace_Template yamlStr [''completeNotifyUrl'' \<mapsto> JString (GetCompleteNotifyURL r)]
            (parser_ReplaceTemplate r yamlStr
               [''completeNotifyUrl'' \<mapsto> JString (GetCompleteNotifyURL r)])])
      \<and> dom [''completeNotifyUrl'' \<mapsto> JString (GetCompleteNotifyURL r)] = {''completeNotifyUrl''})"
  by (auto simp: replacePlaceholders_def Let_def split: sum.splits)

theorem replacePlaceholders_decoded_witness:
  "replacePlaceholders demo ''notify: '' ds1 =
     (Returned (Inr ''notify: http://notify''),
      [Json_Unmarshal ''{}'' (Inr (Some Map.empty)),
       Replace_Template ''notify: '' [''completeNotifyUrl'' \<mapsto> JString ''http://notify'']
         (Inr ''notify: http://notify'')])
   \<and> replacePlaceholders demo ''notify: '' ds4 =
     (Returned (Inl (GoError ''unexpected end of JSON input'')),
      [Json_Unmarshal '''' (Inl (GoError ''unexpected end of JSON input''))])"
proof -
  have b1: "Parameters (Plugin (DatasetMetadata (Spec ds1))) = ''{}''"
    and b4: "Parameters (Plugin (DatasetMetadata (Spec ds4))) = ''''"
    by (simp_all add: demo_defs)
  have d1: "json_Unmarshal demo (Parameters (Plugin (DatasetMetadata (Spec ds1)))) = Inr (Some Map.empty)"
    and d4: "json_Unmarshal demo (Parameters (Plugin (DatasetMetadata (Spec ds4)))) =
               Inl (GoError ''unexpected end of JSON input'')"
    by (simp_all add: demo_defs)
  have u: "GetCompleteNotifyURL demo = ''http://notify''"
    by (simp add: GetCompleteNotifyURL_def demo_defs)
  have t: "parser_ReplaceTemplate demo ''notify: '' [''completeNotifyUrl'' \<mapsto> JString ''http://notify''] =
             Inr ''notify: http://notify''"
    by (simp add: demo_defs)
  note e = replacePlaceholders_decoded [of demo ds4 "''notify: ''", THEN conjunct1, rule_format, OF d4]
  note m = replacePlaceholders_decoded [of demo ds1 "''notify: ''", THEN conjunct2, rule_format, OF d1,
             THEN conjunct1]
  from e m show ?thesis
    by (simp only: b1 b4 u t simp_thms)
qed

text \<open>
  The empty blob is not decoded to an empty mapping: the decoder reports the end of
  the input and \<open>replacePlaceholders\<close> returns that error.
\<close>

theorem replacePlaceholders_empty_blob:
  "Parameters (Plugin (DatasetMetadata (Spec ds4))) = ''''
   \<and> replacePlaceholders demo ''notify: '' ds4 =
       (Returned (Inl (GoError ''unexpected end of JSON input'')),
        [Json_Unmarshal '''' (Inl (GoError ''unexpected end of JSON input''))])
   \<and> fst (Reconcile demo (''default'', ''ds-4'') (mk_cluster [ds4] [])) =
       Returned (Some (GoError ''unexpected end of JSON input''))"
  by (simp add: controller_defs demo_defs)

text \<open>
  When the decoder returns no error and leaves the map nil, as it does on the literal
  \<^verbatim>\<open>null\<close>, the function does not return: the assignment panics.
\<close>

lemma replacePlaceholders_nil_map:
  assumes "json_Unmarshal r (Parameters (Plugin (DatasetMetadata (Spec ds)))) = Inr None"
  shows "replacePlaceholders r yamlStr ds =
           (Panicked ''assignment to entry in nil map'',
            [Json_Unmarshal (Parameters (Plugin (DatasetMetadata (Spec ds)))) (Inr None)])"
  using assms by (simp add: replacePlaceholders_def)

text \<open>
  C10. When the decoder gives a map, the renderer is called with that map updated at
  \<^verbatim>\<open>completeNotifyUrl\<close> by the configured value, which is the value of the key
  \<^verbatim>\<open>complete_notify_url\<close> of the configuration: an entry of the blob under that key is
  overwritten, every other entry is kept.
\<close>

theorem replacePlaceholders_injects_url:
  assumes "json_Unmarshal r (Parameters (Plugin (DatasetMetadata (Spec ds)))) = Inr (Some m)"
  shows "\<exists>ps. replacePlaceholders r yamlStr ds =
           (Returned (parser_ReplaceTemplate r yamlStr ps),
            [Json_Unmarshal (Parameters (Plugin (DatasetMetadata (Spec ds)))) (Inr (Some m)),
             Replace_Template yamlStr ps (parser_ReplaceTemplate r yamlStr ps)])
         \<and> ps ''completeNotifyUrl'' = Some (JString (GetCompleteNotifyURL r))
         \<and> GetCompleteNotifyURL r = viper_GetString r ''complete_notify_url''
         \<and> ps = m(''completeNotifyUrl'' \<mapsto> JString (GetCompleteNotifyURL r))"
  using assms
  by (auto simp: replacePlaceholders_def GetCompleteNotifyURL_def Let_def split: sum.splits)

theorem replacePlaceholders_injects_url_witness:
  "json_Unmarshal demo (Parameters (Plugin (DatasetMetadata (Spec ds2)))) =
     Inr (Some [''completeNotifyUrl'' \<mapsto> JString ''http://user''])
   \<and> (\<exists>ps. snd (replacePlaceholders demo ''notify: '' ds2) =
           [Json_Unmarshal blob_with_url (Inr (Some [''completeNotifyUrl'' \<mapsto> JString ''http://user''])),
            Replace_Template ''notify: '' ps (Inr ''notify: http://notify'')]
         \<and> ps ''completeNotifyUrl'' = Some (JString ''http://notify''))"
proof -
  have d: "json_Unmarshal demo (Parameters (Plugin (DatasetMetadata (Spec ds2)))) =
     Inr (Some [''completeNotifyUrl'' \<mapsto> JString ''http://user''])"
    by (simp add: demo_defs)
  have b: "Parameters (Plugin (DatasetMetadata (Spec ds2))) = blob_with_url"
    by (simp add: ds2_def mk_dataset_def)
  have u: "GetCompleteNotifyURL demo = ''http://notify''"
    by (simp add: GetCompleteNotifyURL_def demo_defs)
  from replacePlaceholders_injects_url [OF d, of "''notify: ''"] obtain ps where
    run: "replacePlaceholders demo ''notify: '' ds2 =
           (Returned (parser_ReplaceTemplate demo ''notify: '' ps),
            [Json_Unmarshal (Parameters (Plugin (DatasetMetadata (Spec ds2))))
               (Inr (Some [''completeNotifyUrl'' \<mapsto> JString ''http://user''])),
             Replace_Template ''notify: '' ps (parser_ReplaceTemplate demo ''notify: '' ps)])"
    and url: "ps ''completeNotifyUrl'' = Some (JString (GetCompleteNotifyURL demo))"
    by blast
  have t: "parser_ReplaceTemplate demo ''notify: '' ps = Inr ''notify: http://notify''"
    using url u by (simp add: demo_def demo_ReplaceTemplate_def)
  from run url d show ?thesis
    by (simp add: b u t)
qed

end
